theory Spec2Isabelle
  imports Main
begin

section \<open>The notebook as data\<close>

text \<open>
  The repository's source is one Jupyter notebook,
  \<^verbatim>\<open>docs/tutorials/advanced/terra/pulse/adding_measurements.ipynb\<close>.
  A notebook (nbformat 4) is a list of cells; a cell has a \<^verbatim>\<open>cell_type\<close> and a
  \<^verbatim>\<open>source\<close>, the list of its lines. The cells below are the notebook's, in order,
  each line without its terminating newline.
\<close>

datatype cell_type = Markdown | Code

record cell =
  cell_type :: cell_type
  source :: "string list"

definition cell0 :: cell where
  \<open>cell0 = \<lparr>cell_type = Markdown, source =
    [''# Adding measurements to `Schedule`s'',
     '''',
     ''Measurement is clearly a very important part of building a Pulse schedule -- this is required to get the results of our program execution! The powerful low-level control we are granted by Pulse gives us more freedom than `QuantumCircuit`s in specifying how the measurement should be done, enabling you to explore readout error mitigation. This power of course comes with responsibility: we have to understand how measurement works, and accomodate certain hardware constraints.'',
     '''',
     ''On this page, we will explore in depth how to create measurements, using several different approaches of increasing complexity.'',
     '''',
     ''**Note: Pulse allows you to receive raw, kerneled, and disciminated readout data (whereas circuits will only return discriminated data). Documentation for these options can be found here-COMING SOON.**'',
     '''',
     ''### Adding a backend-default measurement with `measure`'',
     ''To add measurements as easily to `Schedule`s as to `QuantumCircuit`s, you just have to know which qubits you want to measure (below, qubits 0 and 1) and have a OpenPulse-enabled `backend`:'',
     '''',
     ''```'',
     ''# Appending a measurement schedule to a Schedule, sched'',
     ''from qiskit.scheduler import measure'',
     ''sched += measure([0, 1], backend) << sched.duration'',
     ''```'',
     ''The `backend` contains a default definition for measurement, which is tailored to the qubits you are measuring.'',
     '''',
     ''### Basic measurement pattern and `measure_all`'',
     ''Let\'s use the default measurement feature to inspect a measurement and learn what each pulse does. Below, we use `measure_all`, which measures all the qubits on the backend.'']\<rparr>\<close>

definition cell1 :: cell where
  \<open>cell1 = \<lparr>cell_type = Code, source =
    [''from qiskit import IBMQ'',
     ''from qiskit.pulse import Schedule'',
     ''from qiskit.scheduler import measure_all'',
     ''from qiskit.test.mock import FakeAlmaden'',
     '''',
     ''backend = FakeAlmaden()'']\<rparr>\<close>

definition cell2 :: cell where
  \<open>cell2 = \<lparr>cell_type = Code, source =
    [''sched = Schedule(name="Measurement scheduling example")'',
     ''sched += measure_all(backend)'',
     '''',
     ''sched.draw()'']\<rparr>\<close>

definition cell3 :: cell where
  \<open>cell3 = \<lparr>cell_type = Markdown, source =
    [''Each qubit has two channels related to readout, as we see above. These are the readout transmit `MeasureChannel`s, and the readout receive `AcquireChannel`s. In superconducting qubit architectures, qubits are coupled to readout resonators. The `MeasureChannel` and `AcquireChannel`s label signal lines which connect to the readout resonator. The coupling between the qubit and the readout resonator hybridizes their state, so when a stimulus pulse is sent to the readout resonantor, the reflected pulse is dependent on the state of the qubit. The acquisition "pulse" is truly a trigger specifying to the analog-to-digital converter (ADC) to begin collecting data, and for how long. That data is used to classify the qubit state.'',
     '''',
     ''### Specifying classical memory slots'',
     '''',
     ''If you would like to specify where your measurement results go, there is an option for that in `measure`, called `qubit_mem_slots`. It takes a dictionary mapping qubit indices to classical memory slots. For example, if you want to measure qubit 0 into memory slot 1, you would do this:'']\<rparr>\<close>

definition cell4 :: cell where
  \<open>cell4 = \<lparr>cell_type = Code, source =
    [''from qiskit.scheduler import measure'',
     '''',
     ''sched = measure(qubits=[0], backend=backend, qubit_mem_slots={0: 1})'']\<rparr>\<close>

definition cell5 :: cell where
  \<open>cell5 = \<lparr>cell_type = Markdown, source =
    [''This would be equivalent to the circuit measurement `circuit.measure(qubit_reg[0], classical_reg[1])`.'']\<rparr>\<close>

definition cell6 :: cell where
  \<open>cell6 = \<lparr>cell_type = Markdown, source =
    [''## Build a measurement sequence from pulses'',
     '''',
     ''Rather than use the default measurements provided by the backend, we can also build the measurement sequence up as a basic Pulse schedule. The example below is similar to a typical measurement on IBM systems.'',
     '''',
     ''First, we\'ll build the measurement stimulus pulses for each of the qubits we want to measure. Below, we use a Gaussian square parametric pulse.'']\<rparr>\<close>

definition cell7 :: cell where
  \<open>cell7 = \<lparr>cell_type = Code, source =
    [''from qiskit.pulse import MeasureChannel, AcquireChannel, MemorySlot, GaussianSquare, Acquire'',
     '''',
     ''# Duration (in number of cycles) for readout '',
     ''duration = 16000'',
     '''',
     ''# Stimulus pulses for qubits 0 and 1'',
     ''measure_tx = GaussianSquare(duration=duration, amp=0.2, sigma=10, width=duration - 50)(MeasureChannel(0))'',
     ''measure_tx += GaussianSquare(duration=duration, amp=0.2, sigma=10, width=duration - 50)(MeasureChannel(1))'']\<rparr>\<close>

definition cell8 :: cell where
  \<open>cell8 = \<lparr>cell_type = Markdown, source =
    [''Before we build the acquisition pulses, we need to understand the measurement map.'',
     '''',
     ''#### Acquiring qubits: the measurement map `meas_map`'',
     '''',
     ''Due to control rack hardware constraints, some qubits may need to be acquired together. This can be the case for qubits whose readout channels are multiplexed. Any OpenPulse-enabled backend will provide a `meas_map` to notify the user of this.'',
     '''',
     ''For instance, if we see this for a 5-qubit `backend`'',
     '''',
     ''```'',
     ''backend.configuration().meas_map'',
     '''',
     ''Out: [[0, 1, 2, 3, 4]]'',
     ''```'',
     '''',
     ''then we know that all the qubits on this device must be acquired together. On the other hand, this output'',
     '''',
     ''```'',
     ''Out: [[0], [1], [2], [3, 4]]'',
     ''```'',
     '''',
     ''tells us that qubits 0, 1 and 2 can be acquired independently, but qubits 3 and 4 must be acquired together.'',
     '''',
     ''When building up a pulse schedule, be sure to add all the acquire pulses required by the backend you plan to run on. This is validated at assemble time.'',
     '''',
     ''Getting back to our example, let\'s imagine we plan to run on a backend with this measurement map: `[[0, 1, 2]]`. Now we can build the acquisition pulses. This is done with the `Acquire` command, which takes only a duration. We specify the channels and memory slots to acquire on.'']\<rparr>\<close>

definition cell9 :: cell where
  \<open>cell9 = \<lparr>cell_type = Code, source =
    [''# Acquisition instructions'',
     ''acquire = Acquire(duration)'',
     ''measure_rx = acquire(AcquireChannel(0), MemorySlot(0))'',
     ''measure_rx += acquire(AcquireChannel(1), MemorySlot(1))'']\<rparr>\<close>

definition cell10 :: cell where
  \<open>cell10 = \<lparr>cell_type = Markdown, source =
    [''Finally, we just combine the two parts together. Every instruction is on a different channel, so appending schedules the instructions at time 0. The `measure_schedule` can then be added to the end of any Pulse schedule to measure qubits 0 and 1 into classical memory slots 0 and 1.'']\<rparr>\<close>

definition cell11 :: cell where
  \<open>cell11 = \<lparr>cell_type = Code, source =
    [''measure_sched = measure_tx + measure_rx'',
     '''',
     ''measure_sched.draw()'']\<rparr>\<close>

definition cell12 :: cell where
  \<open>cell12 = \<lparr>cell_type = Code, source =
    [''import qiskit.tools.jupyter'',
     ''%qiskit_version_table'',
     ''%qiskit_copyright'']\<rparr>\<close>

definition notebook :: "cell list" where
  "notebook = [cell0, cell1, cell2, cell3, cell4, cell5, cell6, cell7, cell8, cell9, cell10, cell11, cell12]"

definition code_cells :: "cell list" where
  "code_cells = filter (\<lambda>c. cell_type c = Code) notebook"

section \<open>Reading a code cell\<close>

text \<open>
  Python ignores a line that is blank or holds only a comment; the remaining lines of a
  code cell are its statements (every statement of the notebook fits on one line).
\<close>

definition is_blank_or_comment :: "string \<Rightarrow> bool" where
  "is_blank_or_comment l =
     (case dropWhile (\<lambda>c. c = CHR '' '') l of [] \<Rightarrow> True | c # cs \<Rightarrow> c = CHR ''#'')"

definition statement_lines :: "cell \<Rightarrow> string list" where
  "statement_lines c = filter (\<lambda>l. \<not> is_blank_or_comment l) (source c)"

text \<open>
  The words of a line: the maximal runs of identifier characters, those inside string
  literals included. A keyword of Python that is not among the words of a line does not
  occur in it.
\<close>

definition ident_char :: "char \<Rightarrow> bool" where
  "ident_char c =
     (c \<in> set ''abcdefghijklmnopqrstuvwxyzABCDEFGHIJKLMNOPQRSTUVWXYZ0123456789_'')"

fun words_from :: "string \<Rightarrow> string \<Rightarrow> string list" where
  "words_from w [] = (if w = [] then [] else [w])"
| "words_from w (c # cs) =
     (if ident_char c then words_from (w @ [c]) cs
      else (if w = [] then [] else [w]) @ words_from [] cs)"

definition words :: "string \<Rightarrow> string list" where
  "words l = words_from [] l"

definition code_words :: "string list" where
  "code_words = concat (map words (concat (map statement_lines code_cells)))"

fun contains :: "string \<Rightarrow> string \<Rightarrow> bool" where
  "contains p [] = (p = [])"
| "contains p (c # cs) = (take (length p) (c # cs) = p \<or> contains p cs)"

section \<open>The statements of the notebook\<close>

text \<open>
  The abstract syntax of the Python (and IPython) that the code cells are written in:
  integer, float and string literals, names, attribute access, the binary operators
  \<^verbatim>\<open>+\<close> and \<^verbatim>\<open>-\<close>, list and dict displays, and calls with positional and keyword
  arguments; \<^verbatim>\<open>from m import a, b\<close>, \<^verbatim>\<open>import m\<close>, assignment, augmented
  assignment, expression statements and IPython line magics (\<^verbatim>\<open>%name\<close>).
  A float literal is kept as it is written.
\<close>

datatype binop = Add | Sub

datatype expr =
    Num nat
  | Flt string
  | Str string
  | Name string
  | Attribute expr string
  | BinOp expr binop expr
  | ListE "expr list"
  | DictE "(expr \<times> expr) list"
  | Call expr "expr list" "(string \<times> expr) list"

datatype stmt =
    ImportFrom string "string list"
  | Import string
  | Assign string expr
  | AugAssign string binop expr
  | Expr expr
  | Magic string

definition cell1_stmts :: "stmt list" where
  "cell1_stmts =
    [ImportFrom ''qiskit'' [''IBMQ''],
     ImportFrom ''qiskit.pulse'' [''Schedule''],
     ImportFrom ''qiskit.scheduler'' [''measure_all''],
     ImportFrom ''qiskit.test.mock'' [''FakeAlmaden''],
     Assign ''backend'' (Call (Name ''FakeAlmaden'') [] [])]"

definition cell2_stmts :: "stmt list" where
  "cell2_stmts =
    [Assign ''sched''
       (Call (Name ''Schedule'') [] [(''name'', Str ''Measurement scheduling example'')]),
     AugAssign ''sched'' Add (Call (Name ''measure_all'') [Name ''backend''] []),
     Expr (Call (Attribute (Name ''sched'') ''draw'') [] [])]"

definition cell4_stmts :: "stmt list" where
  "cell4_stmts =
    [ImportFrom ''qiskit.scheduler'' [''measure''],
     Assign ''sched''
       (Call (Name ''measure'') []
          [(''qubits'', ListE [Num 0]),
           (''backend'', Name ''backend''),
           (''qubit_mem_slots'', DictE [(Num 0, Num 1)])])]"

definition gaussian_square_expr :: expr where
  "gaussian_square_expr =
     Call (Name ''GaussianSquare'') []
       [(''duration'', Name ''duration''),
        (''amp'', Flt ''0.2''),
        (''sigma'', Num 10),
        (''width'', BinOp (Name ''duration'') Sub (Num 50))]"

definition cell7_stmts :: "stmt list" where
  "cell7_stmts =
    [ImportFrom ''qiskit.pulse''
       [''MeasureChannel'', ''AcquireChannel'', ''MemorySlot'', ''GaussianSquare'', ''Acquire''],
     Assign ''duration'' (Num 16000),
     Assign ''measure_tx''
       (Call gaussian_square_expr [Call (Name ''MeasureChannel'') [Num 0] []] []),
     AugAssign ''measure_tx'' Add
       (Call gaussian_square_expr [Call (Name ''MeasureChannel'') [Num 1] []] [])]"

definition cell9_stmts :: "stmt list" where
  "cell9_stmts =
    [Assign ''acquire'' (Call (Name ''Acquire'') [Name ''duration''] []),
     Assign ''measure_rx''
       (Call (Name ''acquire'')
          [Call (Name ''AcquireChannel'') [Num 0] [], Call (Name ''MemorySlot'') [Num 0] []] []),
     AugAssign ''measure_rx'' Add
       (Call (Name ''acquire'')
          [Call (Name ''AcquireChannel'') [Num 1] [], Call (Name ''MemorySlot'') [Num 1] []] [])]"

definition cell11_stmts :: "stmt list" where
  "cell11_stmts =
    [Assign ''measure_sched'' (BinOp (Name ''measure_tx'') Add (Name ''measure_rx'')),
     Expr (Call (Attribute (Name ''measure_sched'') ''draw'') [] [])]"

definition cell12_stmts :: "stmt list" where
  "cell12_stmts =
    [Import ''qiskit.tools.jupyter'',
     Magic ''qiskit_version_table'',
     Magic ''qiskit_copyright'']"

definition code_stmts :: "stmt list list" where
  "code_stmts =
     [cell1_stmts, cell2_stmts, cell4_stmts, cell7_stmts, cell9_stmts, cell11_stmts,
      cell12_stmts]"

subsection \<open>Writing the statements back as text\<close>









subsection \<open>Well-formed statements\<close>

text \<open>
  The text of a statement determines the statement only if its names are identifiers,
  its module names dotted identifiers, its float literals digits around one point, and
  its string literals free of quotes and backslashes.
\<close>

fun is_identifier :: "string \<Rightarrow> bool" where
  "is_identifier [] = False"
| "is_identifier (c # cs) = (c \<notin> set ''0123456789'' \<and> list_all ident_char (c # cs))"

fun split_on :: "char \<Rightarrow> string \<Rightarrow> string \<Rightarrow> string list" where
  "split_on d w [] = [w]"
| "split_on d w (c # cs) = (if c = d then w # split_on d [] cs else split_on d (w @ [c]) cs)"

definition dotted :: "string \<Rightarrow> bool" where
  "dotted m = list_all is_identifier (split_on CHR ''.'' [] m)"

definition digits :: "string \<Rightarrow> bool" where
  "digits s = (s \<noteq> [] \<and> list_all (\<lambda>c. c \<in> set ''0123456789'') s)"

definition float_literal :: "string \<Rightarrow> bool" where
  "float_literal s =
     (case split_on CHR ''.'' [] s of [a, b] \<Rightarrow> digits a \<and> digits b | other \<Rightarrow> False)"

definition plain_text :: "string \<Rightarrow> bool" where
  "plain_text s = list_all (\<lambda>c. c \<noteq> CHR 0x22 \<and> c \<noteq> CHR 0x5C \<and> c \<noteq> CHR 0x0A) s"

fun wf_expr :: "expr \<Rightarrow> bool" where
  "wf_expr (Num n) = True"
| "wf_expr (Flt s) = float_literal s"
| "wf_expr (Str s) = plain_text s"
| "wf_expr (Name x) = is_identifier x"
| "wf_expr (Attribute e a) = (wf_expr e \<and> is_identifier a)"
| "wf_expr (BinOp a opr b) = (wf_expr a \<and> wf_expr b)"
| "wf_expr (ListE es) = list_all wf_expr es"
| "wf_expr (DictE kvs) = list_all (\<lambda>(k, v). wf_expr k \<and> wf_expr v) kvs"
| "wf_expr (Call f args kws) =
     (wf_expr f \<and> list_all wf_expr args \<and> list_all (\<lambda>(k, e). is_identifier k \<and> wf_expr e) kws)"

fun wf_stmt :: "stmt \<Rightarrow> bool" where
  "wf_stmt (ImportFrom m ns) = (dotted m \<and> ns \<noteq> [] \<and> list_all is_identifier ns)"
| "wf_stmt (Import m) = dotted m"
| "wf_stmt (Assign x e) = (is_identifier x \<and> wf_expr e)"
| "wf_stmt (AugAssign x opr e) = (is_identifier x \<and> wf_expr e)"
| "wf_stmt (Expr e) = wf_expr e"
| "wf_stmt (Magic m) = is_identifier m"

section \<open>What running the notebook does\<close>

text \<open>
  Every object the notebook handles other than its own literals comes from the
  \<^verbatim>\<open>qiskit\<close> package, whose code is not part of this repository. The model therefore
  computes what the notebook's own code computes (literals, name binding, integer
  arithmetic) and records what it hands to the package: an imported object is
  \<open>VExt module name\<close>, and the result of calling such an object, of reading one of its
  attributes or of applying an operator to it is the term that says so
  (\<open>VCall\<close>, \<open>VAttr\<close>, \<open>VOp\<close>), with no assumption about what the package returns.
\<close>

datatype val =
    VInt int
  | VFlt string
  | VStr string
  | VList "val list"
  | VDict "(val \<times> val) list"
  | VExt string string
  | VModule string
  | VAttr val string
  | VCall val "val list" "(string \<times> val) list"
  | VOp val binop val

text \<open>
  The trace of a run: the imports, the calls, operator applications handed to the
  package, the IPython magics, and the integer arithmetic the interpreter does itself.
\<close>

datatype event =
    EImportFrom string string
  | EImport string
  | ECall val "val list" "(string \<times> val) list"
  | EOp val binop val
  | EArith int binop int
  | EMagic string

datatype py_error = NameError string | TypeError | NotModelled

type_synonym env = "(string \<times> val) list"

fun is_ext :: "val \<Rightarrow> bool" where
  "is_ext (VExt m n) = True"
| "is_ext (VModule m) = True"
| "is_ext (VAttr v a) = True"
| "is_ext (VCall f args kws) = True"
| "is_ext (VOp a opr b) = True"
| "is_ext v = False"

fun arith :: "int \<Rightarrow> binop \<Rightarrow> int \<Rightarrow> int" where
  "arith a Add b = a + b"
| "arith a Sub b = a - b"

text \<open>
  A binary operator on two integers is computed (Python's integers are unbounded); one
  with an operand from the package is dispatched to the package; any other combination
  (floats, strings, lists) is outside the model.
\<close>

fun apply_binop :: "val \<Rightarrow> binop \<Rightarrow> val \<Rightarrow> py_error + (val \<times> event list)" where
  "apply_binop (VInt a) opr (VInt b) = Inr (VInt (arith a opr b), [EArith a opr b])"
| "apply_binop x opr y =
     (if is_ext x \<or> is_ext y then Inr (VOp x opr y, [EOp x opr y]) else Inl NotModelled)"

text \<open>
  Evaluation returns the value and the events of the evaluation, in Python's order: the
  callee, the positional arguments from left to right, the keyword arguments, the call.
\<close>

function (sequential) eval :: "env \<Rightarrow> expr \<Rightarrow> py_error + (val \<times> event list)"
  and eval_list :: "env \<Rightarrow> expr list \<Rightarrow> py_error + (val list \<times> event list)"
  and eval_items :: "env \<Rightarrow> (expr \<times> expr) list \<Rightarrow> py_error + ((val \<times> val) list \<times> event list)"
  and eval_kws :: "env \<Rightarrow> (string \<times> expr) list \<Rightarrow> py_error + ((string \<times> val) list \<times> event list)"
where
  "eval env (Num n) = Inr (VInt (int n), [])"
| "eval env (Flt s) = Inr (VFlt s, [])"
| "eval env (Str s) = Inr (VStr s, [])"
| "eval env (Name x) =
     (case map_of env x of None \<Rightarrow> Inl (NameError x) | Some v \<Rightarrow> Inr (v, []))"
| "eval env (Attribute e a) =
     (case eval env e of
        Inl err \<Rightarrow> Inl err
      | Inr (v, t) \<Rightarrow> if is_ext v then Inr (VAttr v a, t) else Inl NotModelled)"
| "eval env (BinOp a opr b) =
     (case eval env a of
        Inl err \<Rightarrow> Inl err
      | Inr (x, t1) \<Rightarrow>
          (case eval env b of
             Inl err \<Rightarrow> Inl err
           | Inr (y, t2) \<Rightarrow>
               (case apply_binop x opr y of
                  Inl err \<Rightarrow> Inl err
                | Inr (v, t3) \<Rightarrow> Inr (v, t1 @ t2 @ t3))))"
| "eval env (ListE es) =
     (case eval_list env es of Inl err \<Rightarrow> Inl err | Inr (vs, t) \<Rightarrow> Inr (VList vs, t))"
| "eval env (DictE kvs) =
     (case eval_items env kvs of Inl err \<Rightarrow> Inl err | Inr (vs, t) \<Rightarrow> Inr (VDict vs, t))"
| "eval env (Call f args kws) =
     (case eval env f of
        Inl err \<Rightarrow> Inl err
      | Inr (fv, t1) \<Rightarrow>
          (case eval_list env args of
             Inl err \<Rightarrow> Inl err
           | Inr (vs, t2) \<Rightarrow>
               (case eval_kws env kws of
                  Inl err \<Rightarrow> Inl err
                | Inr (kvs, t3) \<Rightarrow>
                    if is_ext fv
                    then Inr (VCall fv vs kvs, t1 @ t2 @ t3 @ [ECall fv vs kvs])
                    else Inl TypeError)))"
| "eval_list env [] = Inr ([], [])"
| "eval_list env (e # es) =
     (case eval env e of
        Inl err \<Rightarrow> Inl err
      | Inr (v, t1) \<Rightarrow>
          (case eval_list env es of
             Inl err \<Rightarrow> Inl err
           | Inr (vs, t2) \<Rightarrow> Inr (v # vs, t1 @ t2)))"
| "eval_items env [] = Inr ([], [])"
| "eval_items env ((k, e) # kvs) =
     (case eval env k of
        Inl err \<Rightarrow> Inl err
      | Inr (kv, t1) \<Rightarrow>
          (case eval env e of
             Inl err \<Rightarrow> Inl err
           | Inr (v, t2) \<Rightarrow>
               (case eval_items env kvs of
                  Inl err \<Rightarrow> Inl err
                | Inr (vs, t3) \<Rightarrow> Inr ((kv, v) # vs, t1 @ t2 @ t3))))"
| "eval_kws env [] = Inr ([], [])"
| "eval_kws env ((k, e) # kws) =
     (case eval env e of
        Inl err \<Rightarrow> Inl err
      | Inr (v, t1) \<Rightarrow>
          (case eval_kws env kws of
             Inl err \<Rightarrow> Inl err
           | Inr (vs, t2) \<Rightarrow> Inr ((k, v) # vs, t1 @ t2)))"
  by pat_completeness auto

termination
  apply (relation "measure (\<lambda>x. case x of
     Inl (Inl (env, e)) \<Rightarrow> size e
   | Inl (Inr (env, es)) \<Rightarrow> size_list size es
   | Inr (Inl (env, kvs)) \<Rightarrow> size_list (size_prod size size) kvs
   | Inr (Inr (env, kws)) \<Rightarrow> size_list (size_prod (\<lambda>k. 0) size) kws)")
  apply simp_all
  done

record state =
  globals :: env
  trace :: "event list"

definition top_package :: "string \<Rightarrow> string" where
  "top_package m = takeWhile (\<lambda>c. c \<noteq> CHR ''.'') m"

text \<open>
  A statement updates the global names and extends the trace.
  \<^verbatim>\<open>from m import a, b\<close> binds each name to the object of that name in \<open>m\<close>;
  \<^verbatim>\<open>import a.b.c\<close> binds \<open>a\<close> to the top package; \<^verbatim>\<open>x op= e\<close> reads \<open>x\<close>
  (a NameError when it is unbound), evaluates \<open>e\<close>, applies the operator and binds \<open>x\<close>
  to the result.
\<close>

fun exec :: "state \<Rightarrow> stmt \<Rightarrow> py_error + state" where
  "exec s (ImportFrom m ns) =
     Inr \<lparr>globals = rev (map (\<lambda>n. (n, VExt m n)) ns) @ globals s,
          trace = trace s @ map (EImportFrom m) ns\<rparr>"
| "exec s (Import m) =
     Inr \<lparr>globals = (top_package m, VModule (top_package m)) # globals s,
          trace = trace s @ [EImport m]\<rparr>"
| "exec s (Assign x e) =
     (case eval (globals s) e of
        Inl err \<Rightarrow> Inl err
      | Inr (v, t) \<Rightarrow> Inr \<lparr>globals = (x, v) # globals s, trace = trace s @ t\<rparr>)"
| "exec s (AugAssign x opr e) =
     (case map_of (globals s) x of
        None \<Rightarrow> Inl (NameError x)
      | Some old \<Rightarrow>
          (case eval (globals s) e of
             Inl err \<Rightarrow> Inl err
           | Inr (v, t1) \<Rightarrow>
               (case apply_binop old opr v of
                  Inl err \<Rightarrow> Inl err
                | Inr (new, t2) \<Rightarrow>
                    Inr \<lparr>globals = (x, new) # globals s, trace = trace s @ t1 @ t2\<rparr>)))"
| "exec s (Expr e) =
     (case eval (globals s) e of
        Inl err \<Rightarrow> Inl err
      | Inr (v, t) \<Rightarrow> Inr (s\<lparr>trace := trace s @ t\<rparr>))"
| "exec s (Magic m) = Inr (s\<lparr>trace := trace s @ [EMagic m]\<rparr>)"

fun exec_all :: "state \<Rightarrow> stmt list \<Rightarrow> py_error + state" where
  "exec_all s [] = Inr s"
| "exec_all s (c # cs) =
     (case exec s c of Inl err \<Rightarrow> Inl err | Inr s' \<Rightarrow> exec_all s' cs)"

text \<open>The cells run in the order of the notebook, in one namespace, from an empty one.\<close>

definition run_notebook :: "py_error + state" where
  "run_notebook = exec_all \<lparr>globals = [], trace = []\<rparr> (concat code_stmts)"

definition run_trace :: "py_error + event list" where
  "run_trace = (case run_notebook of Inl err \<Rightarrow> Inl err | Inr s \<Rightarrow> Inr (trace s))"

text \<open>What the names \<open>xs\<close> are bound to when the notebook has run.\<close>

definition final_bindings :: "string list \<Rightarrow> py_error + val option list" where
  "final_bindings xs =
     (case run_notebook of Inl err \<Rightarrow> Inl err | Inr s \<Rightarrow> Inr (map (map_of (globals s)) xs))"

subsection \<open>The trace of the notebook\<close>

text \<open>The objects the notebook obtains from the package, named as the notebook names them.\<close>

definition backend :: val where
  "backend = VCall (VExt ''qiskit.test.mock'' ''FakeAlmaden'') [] []"

definition example_schedule :: val where
  "example_schedule =
     VCall (VExt ''qiskit.pulse'' ''Schedule'') []
       [(''name'', VStr ''Measurement scheduling example'')]"

definition pulse_params :: "(string \<times> val) list" where
  "pulse_params =
     [(''duration'', VInt 16000), (''amp'', VFlt ''0.2''), (''sigma'', VInt 10),
      (''width'', VInt 15950)]"

definition gaussian_square :: val where
  "gaussian_square = VCall (VExt ''qiskit.pulse'' ''GaussianSquare'') [] pulse_params"

definition measure_channel :: "int \<Rightarrow> val" where
  "measure_channel i = VCall (VExt ''qiskit.pulse'' ''MeasureChannel'') [VInt i] []"

definition acquire_channel :: "int \<Rightarrow> val" where
  "acquire_channel i = VCall (VExt ''qiskit.pulse'' ''AcquireChannel'') [VInt i] []"

definition memory_slot :: "int \<Rightarrow> val" where
  "memory_slot i = VCall (VExt ''qiskit.pulse'' ''MemorySlot'') [VInt i] []"

definition acquire :: val where
  "acquire = VCall (VExt ''qiskit.pulse'' ''Acquire'') [VInt 16000] []"

definition stimulus :: "int \<Rightarrow> val" where
  "stimulus i = VCall gaussian_square [measure_channel i] []"

definition acquisition :: "int \<Rightarrow> int \<Rightarrow> val" where
  "acquisition i m = VCall acquire [acquire_channel i, memory_slot m] []"

definition measure_tx :: val where
  "measure_tx = VOp (stimulus 0) Add (stimulus 1)"

definition measure_rx :: val where
  "measure_rx = VOp (acquisition 0 0) Add (acquisition 1 1)"

definition measure_all_schedule :: val where
  "measure_all_schedule = VCall (VExt ''qiskit.scheduler'' ''measure_all'') [backend] []"

definition measure_params :: "(string \<times> val) list" where
  "measure_params =
     [(''qubits'', VList [VInt 0]), (''backend'', backend),
      (''qubit_mem_slots'', VDict [(VInt 0, VInt 1)])]"

definition notebook_trace :: "event list" where
  "notebook_trace =
    [EImportFrom ''qiskit'' ''IBMQ'',
     EImportFrom ''qiskit.pulse'' ''Schedule'',
     EImportFrom ''qiskit.scheduler'' ''measure_all'',
     EImportFrom ''qiskit.test.mock'' ''FakeAlmaden'',
     ECall (VExt ''qiskit.test.mock'' ''FakeAlmaden'') [] [],
     ECall (VExt ''qiskit.pulse'' ''Schedule'') []
       [(''name'', VStr ''Measurement scheduling example'')],
     ECall (VExt ''qiskit.scheduler'' ''measure_all'') [backend] [],
     EOp example_schedule Add measure_all_schedule,
     ECall (VAttr (VOp example_schedule Add measure_all_schedule) ''draw'') [] [],
     EImportFrom ''qiskit.scheduler'' ''measure'',
     ECall (VExt ''qiskit.scheduler'' ''measure'') [] measure_params,
     EImportFrom ''qiskit.pulse'' ''MeasureChannel'',
     EImportFrom ''qiskit.pulse'' ''AcquireChannel'',
     EImportFrom ''qiskit.pulse'' ''MemorySlot'',
     EImportFrom ''qiskit.pulse'' ''GaussianSquare'',
     EImportFrom ''qiskit.pulse'' ''Acquire'',
     EArith 16000 Sub 50,
     ECall (VExt ''qiskit.pulse'' ''GaussianSquare'') [] pulse_params,
     ECall (VExt ''qiskit.pulse'' ''MeasureChannel'') [VInt 0] [],
     ECall gaussian_square [measure_channel 0] [],
     EArith 16000 Sub 50,
     ECall (VExt ''qiskit.pulse'' ''GaussianSquare'') [] pulse_params,
     ECall (VExt ''qiskit.pulse'' ''MeasureChannel'') [VInt 1] [],
     ECall gaussian_square [measure_channel 1] [],
     EOp (stimulus 0) Add (stimulus 1),
     ECall (VExt ''qiskit.pulse'' ''Acquire'') [VInt 16000] [],
     ECall (VExt ''qiskit.pulse'' ''AcquireChannel'') [VInt 0] [],
     ECall (VExt ''qiskit.pulse'' ''MemorySlot'') [VInt 0] [],
     ECall acquire [acquire_channel 0, memory_slot 0] [],
     ECall (VExt ''qiskit.pulse'' ''AcquireChannel'') [VInt 1] [],
     ECall (VExt ''qiskit.pulse'' ''MemorySlot'') [VInt 1] [],
     ECall acquire [acquire_channel 1, memory_slot 1] [],
     EOp (acquisition 0 0) Add (acquisition 1 1),
     EOp measure_tx Add measure_rx,
     ECall (VAttr (VOp measure_tx Add measure_rx) ''draw'') [] [],
     EImport ''qiskit.tools.jupyter'',
     EMagic ''qiskit_version_table'',
     EMagic ''qiskit_copyright'']"

section \<open>Reading the trace and the statements\<close>

text \<open>A module of the \<^verbatim>\<open>qiskit\<close> package: the package itself or a dotted name under it.\<close>

definition is_qiskit :: "string \<Rightarrow> bool" where
  "is_qiskit m = (m = ''qiskit'' \<or> take 7 m = ''qiskit.'')"

text \<open>
  The calls of an object \<open>f\<close> in a trace, each with its positional and keyword arguments,
  and the calls of the objects that calls of \<open>f\<close> returned (for a class \<open>f\<close>: the
  applications of its instances).
\<close>

definition calls_to :: "val \<Rightarrow> event list \<Rightarrow> (val list \<times> (string \<times> val) list) list" where
  "calls_to f tr = [(args, kws). ECall g args kws \<leftarrow> tr, g = f]"

definition applications_of :: "val \<Rightarrow> event list \<Rightarrow> (val list \<times> (string \<times> val) list) list" where
  "applications_of f tr = [(args, kws). ECall (VCall g a k) args kws \<leftarrow> tr, g = f]"

definition imported_from :: "event list \<Rightarrow> string \<Rightarrow> string list" where
  "imported_from tr n = [m. EImportFrom m n' \<leftarrow> tr, n' = n]"

text \<open>
  Where an object of the package comes from: the imported object at the root of the calls,
  attribute reads and operator applications that produced it.
\<close>

fun callee_root :: "val \<Rightarrow> val" where
  "callee_root (VCall f args kws) = callee_root f"
| "callee_root (VAttr v a) = callee_root v"
| "callee_root (VOp a opr b) = (if is_ext a then callee_root a else callee_root b)"
| "callee_root v = v"

fun from_qiskit :: "val \<Rightarrow> bool" where
  "from_qiskit (VExt m n) = is_qiskit m"
| "from_qiskit v = False"

definition invoked :: "event list \<Rightarrow> val list" where
  "invoked tr = [f. ECall f args kws \<leftarrow> tr] @ [VOp a opr b. EOp a opr b \<leftarrow> tr]"


text \<open>
  The parameters of a pulse shape: the duration and the width among the keyword arguments
  of a construction.
\<close>

fun int_param :: "(string \<times> val) list \<Rightarrow> string \<Rightarrow> int option" where
  "int_param kws k = (case map_of kws k of Some (VInt i) \<Rightarrow> Some i | _ \<Rightarrow> None)"

definition width_below_duration :: "(string \<times> val) list \<Rightarrow> bool" where
  "width_below_duration kws =
     (case (int_param kws ''duration'', int_param kws ''width'') of
        (Some d, Some w) \<Rightarrow> d = 16000 \<and> w = d - 50 \<and> w = 15950 \<and> w < d
      | _ \<Rightarrow> False)"


text \<open>
  The index of a channel object \<^verbatim>\<open>C(i)\<close> of class \<open>c\<close>, and the pair of indices of an
  application \<^verbatim>\<open>acquire(AcquireChannel(i), MemorySlot(m))\<close>.
\<close>

fun channel_index :: "string \<Rightarrow> val \<Rightarrow> int option" where
  "channel_index c (VCall (VExt m n) [VInt i] []) =
     (if m = ''qiskit.pulse'' \<and> n = c then Some i else None)"
| "channel_index c v = None"

fun acquire_pair :: "val list \<times> (string \<times> val) list \<Rightarrow> (int \<times> int) option" where
  "acquire_pair ([ch, slot], []) =
     (case (channel_index ''AcquireChannel'' ch, channel_index ''MemorySlot'' slot) of
        (Some i, Some m) \<Rightarrow> Some (i, m)
      | _ \<Rightarrow> None)"
| "acquire_pair other = None"

definition acquire_pairs :: "event list \<Rightarrow> (int \<times> int) option list" where
  "acquire_pairs tr = map acquire_pair (applications_of (VExt ''qiskit.pulse'' ''Acquire'') tr)"

fun same_index :: "(int \<times> int) option \<Rightarrow> bool" where
  "same_index (Some (i, m)) = (i = m)"
| "same_index None = False"

text \<open>
  The operands of the additions that built a value: what the notebook has added up with
  \<^verbatim>\<open>+\<close> and \<^verbatim>\<open>+=\<close> to obtain it, from left to right.
\<close>

fun summands :: "val \<Rightarrow> val list" where
  "summands (VOp a Add b) = summands a @ summands b"
| "summands v = [v]"

fun is_acquisition :: "val \<Rightarrow> bool" where
  "is_acquisition (VCall (VCall g a k) args kws) = (g = VExt ''qiskit.pulse'' ''Acquire'')"
| "is_acquisition v = False"

text \<open>
  Modelled from the spec: what an acquisition stores. The acquire instruction is code of
  the package, not of this repository. The spec describes the acquisition command as
  ``applied to channel/memory-slot pairs'', channels as ``parameterized by index'' and a
  memory slot as the ``classical storage location for a measurement outcome''. So the
  application \<^verbatim>\<open>acquire(AcquireChannel(i), MemorySlot(m))\<close> is taken to store the
  outcome read on acquire channel \<open>i\<close>, that of qubit \<open>i\<close>, in memory slot \<open>m\<close>; what
  a schedule stores is what the acquisitions among its summands store.
\<close>

fun stores :: "val \<Rightarrow> (int \<times> int) option" where
  "stores (VCall (VCall g a k) args kws) =
     (if g = VExt ''qiskit.pulse'' ''Acquire'' then acquire_pair (args, kws) else None)"
| "stores v = None"

definition stored_by :: "val \<Rightarrow> (int \<times> int) option list" where
  "stored_by sched = map stores (filter is_acquisition (summands sched))"

text \<open>The \<^verbatim>\<open>qubit_mem_slots\<close> argument of every call of \<^verbatim>\<open>measure\<close>.\<close>

definition qubit_mem_slots :: "event list \<Rightarrow> val option list" where
  "qubit_mem_slots tr =
     [map_of kws ''qubit_mem_slots''.
        (args, kws) \<leftarrow> calls_to (VExt ''qiskit.scheduler'' ''measure'') tr]"

fun overrides_identity :: "val option \<Rightarrow> bool" where
  "overrides_identity (Some (VDict d)) = list_ex (\<lambda>(q, m). q \<noteq> m) d"
| "overrides_identity v = False"

subsection \<open>The shape of a statement\<close>










subsection \<open>Keywords\<close>

definition error_keywords :: "string list" where
  "error_keywords = [''try'', ''except'', ''finally'', ''raise'', ''assert'']"

definition branch_keywords :: "string list" where
  "branch_keywords = [''if'', ''elif'', ''else'', ''while'', ''for'']"

definition definition_keywords :: "string list" where
  "definition_keywords = [''def'', ''class'', ''lambda'']"

definition absent :: "string list \<Rightarrow> bool" where
  "absent kws = list_all (\<lambda>w. w \<notin> set kws) code_words"

definition stated_in_markdown :: "string \<Rightarrow> bool" where
  "stated_in_markdown p =
     list_ex (\<lambda>c. cell_type c = Markdown \<and> list_ex (contains p) (source c)) notebook"

section \<open>Properties\<close>

subsection \<open>The model is the notebook\<close>

lemmas cell_defs = cell0_def cell1_def cell2_def cell3_def cell4_def cell5_def cell6_def
  cell7_def cell8_def cell9_def cell10_def cell11_def cell12_def

lemmas stmts_defs = code_stmts_def cell1_stmts_def cell2_stmts_def cell4_stmts_def
  cell7_stmts_def cell9_stmts_def cell11_stmts_def cell12_stmts_def gaussian_square_expr_def

lemmas val_defs = backend_def example_schedule_def pulse_params_def gaussian_square_def
  measure_channel_def acquire_channel_def memory_slot_def acquire_def stimulus_def
  acquisition_def measure_tx_def measure_rx_def measure_all_schedule_def measure_params_def

lemma code_cells_eq: "code_cells = [cell1, cell2, cell4, cell7, cell9, cell11, cell12]"
  by (simp add: code_cells_def notebook_def cell_defs)


lemma code_stmts_well_formed: "list_all wf_stmt (concat code_stmts)"
  by (simp add: stmts_defs dotted_def float_literal_def digits_def plain_text_def ident_char_def)

lemma code_words_eq:
  "code_words =
    [''from'', ''qiskit'', ''import'', ''IBMQ'', ''from'', ''qiskit'', ''pulse'',
     ''import'', ''Schedule'', ''from'', ''qiskit'', ''scheduler'', ''import'',
     ''measure_all'', ''from'', ''qiskit'', ''test'', ''mock'', ''import'',
     ''FakeAlmaden'', ''backend'', ''FakeAlmaden'', ''sched'', ''Schedule'', ''name'',
     ''Measurement'', ''scheduling'', ''example'', ''sched'', ''measure_all'', ''backend'',
     ''sched'', ''draw'', ''from'', ''qiskit'', ''scheduler'', ''import'', ''measure'',
     ''sched'', ''measure'', ''qubits'', ''0'', ''backend'', ''backend'',
     ''qubit_mem_slots'', ''0'', ''1'', ''from'', ''qiskit'', ''pulse'', ''import'',
     ''MeasureChannel'', ''AcquireChannel'', ''MemorySlot'', ''GaussianSquare'',
     ''Acquire'', ''duration'', ''16000'', ''measure_tx'', ''GaussianSquare'',
     ''duration'', ''duration'', ''amp'', ''0'', ''2'', ''sigma'', ''10'', ''width'',
     ''duration'', ''50'', ''MeasureChannel'', ''0'', ''measure_tx'', ''GaussianSquare'',
     ''duration'', ''duration'', ''amp'', ''0'', ''2'', ''sigma'', ''10'', ''width'',
     ''duration'', ''50'', ''MeasureChannel'', ''1'', ''acquire'', ''Acquire'',
     ''duration'', ''measure_rx'', ''acquire'', ''AcquireChannel'', ''0'', ''MemorySlot'',
     ''0'', ''measure_rx'', ''acquire'', ''AcquireChannel'', ''1'', ''MemorySlot'', ''1'',
     ''measure_sched'', ''measure_tx'', ''measure_rx'', ''measure_sched'', ''draw'',
     ''import'', ''qiskit'', ''tools'', ''jupyter'', ''qiskit_version_table'',
     ''qiskit_copyright'']"
  by (simp add: code_words_def code_cells_eq statement_lines_def cell_defs
      is_blank_or_comment_def words_def ident_char_def)

text \<open>
  The notebook runs to its end without an error, and \<open>notebook_trace\<close> is its trace.
\<close>

lemma run_trace_eq: "run_trace = Inr notebook_trace"
  by code_simp

text \<open>
  When it has run, \<^verbatim>\<open>measure_rx\<close> is bound to the sum of the two acquisitions and
  \<^verbatim>\<open>measure_sched\<close> to the sum of \<^verbatim>\<open>measure_tx\<close> and \<^verbatim>\<open>measure_rx\<close>.
\<close>

lemma final_schedules:
  "final_bindings [''measure_rx'', ''measure_sched''] =
     Inr [Some measure_rx, Some (VOp measure_tx Add measure_rx)]"
  by code_simp

subsection \<open>The acquisition command\<close>

text \<open>
  Claim C3. \<^verbatim>\<open>Acquire\<close> is constructed once, from one positional argument and no
  keyword argument: the duration, \<open>16000\<close>. The command so constructed is applied twice,
  each time to exactly one acquire channel and one memory slot:
  to \<^verbatim>\<open>(AcquireChannel(0), MemorySlot(0))\<close> and to \<^verbatim>\<open>(AcquireChannel(1), MemorySlot(1))\<close>.
\<close>

theorem acquire_usage:
  "\<exists>tr. run_trace = Inr tr \<and>
     calls_to (VExt ''qiskit.pulse'' ''Acquire'') tr = [([VInt 16000], [])] \<and>
     applications_of (VExt ''qiskit.pulse'' ''Acquire'') tr =
       [([acquire_channel 0, memory_slot 0], []), ([acquire_channel 1, memory_slot 1], [])]"
  by (simp add: run_trace_eq notebook_trace_def calls_to_def applications_of_def val_defs)

subsection \<open>The stimulus pulses\<close>

text \<open>
  Claim C4. \<^verbatim>\<open>GaussianSquare\<close> is constructed twice, each time with no positional
  argument and exactly the keyword arguments duration, amp, sigma and width, with the same
  values; the duration is \<open>16000\<close> and the width is the duration less \<open>50\<close>, that is
  \<open>15950\<close>, below the duration. The first pulse is applied to \<^verbatim>\<open>MeasureChannel(0)\<close>,
  the second to \<^verbatim>\<open>MeasureChannel(1)\<close>.
\<close>

theorem gaussian_square_parameters:
  "\<exists>tr. run_trace = Inr tr \<and>
     calls_to (VExt ''qiskit.pulse'' ''GaussianSquare'') tr =
       [([], pulse_params), ([], pulse_params)] \<and>
     map fst pulse_params = [''duration'', ''amp'', ''sigma'', ''width''] \<and>
     width_below_duration pulse_params \<and>
     applications_of (VExt ''qiskit.pulse'' ''GaussianSquare'') tr =
       [([measure_channel 0], []), ([measure_channel 1], [])]"
  by (simp add: run_trace_eq notebook_trace_def calls_to_def applications_of_def val_defs
      width_below_duration_def)

subsection \<open>Acquire channels and memory slots\<close>

text \<open>
  Claim C10. In the hand-built example each application of the acquisition command pairs
  \<^verbatim>\<open>AcquireChannel(i)\<close> with \<^verbatim>\<open>MemorySlot(i)\<close>, for \<open>i = 0\<close> and \<open>i = 1\<close>: the index
  of the acquire channel equals the index of the memory slot. Both acquisitions reach the
  measurement: when the notebook has run, \<^verbatim>\<open>measure_rx\<close> is the sum of the two and
  \<^verbatim>\<open>measure_sched\<close> the sum of the two stimulus pulses and the two. So what
  \<^verbatim>\<open>measure_sched\<close> stores, an acquisition storing the outcome of its acquire channel
  in its memory slot, is the outcome of qubit \<open>i\<close> in slot \<open>i\<close>, for \<open>i = 0\<close> and
  \<open>i = 1\<close>. The \<^verbatim>\<open>qubit_mem_slots\<close> argument that the notebook passes to
  \<^verbatim>\<open>measure\<close>, \<^verbatim>\<open>{0: 1}\<close>, is a mapping that is not this identity.
\<close>

theorem acquire_memory_pairing:
  "\<exists>tr. run_trace = Inr tr \<and>
     acquire_pairs tr = [Some (0, 0), Some (1, 1)] \<and>
     list_all same_index (acquire_pairs tr) \<and>
     qubit_mem_slots tr = [Some (VDict [(VInt 0, VInt 1)])] \<and>
     list_all overrides_identity (qubit_mem_slots tr) \<and>
     (\<exists>rx sched.
        final_bindings [''measure_rx'', ''measure_sched''] = Inr [Some rx, Some sched] \<and>
        summands rx = [acquisition 0 0, acquisition 1 1] \<and>
        summands sched = [stimulus 0, stimulus 1, acquisition 0 0, acquisition 1 1] \<and>
        stored_by rx = [Some (0, 0), Some (1, 1)] \<and>
        stored_by sched = [Some (0, 0), Some (1, 1)] \<and>
        list_all same_index (stored_by sched))"
proof -
  have pairs: "acquire_pairs notebook_trace = [Some (0, 0), Some (1, 1)]"
    by (simp add: notebook_trace_def acquire_pairs_def applications_of_def val_defs)
  have slots: "qubit_mem_slots notebook_trace = [Some (VDict [(VInt 0, VInt 1)])]"
    by (simp add: notebook_trace_def qubit_mem_slots_def calls_to_def val_defs)
  have rx: "summands measure_rx = [acquisition 0 0, acquisition 1 1]"
    by (simp add: val_defs)
  have sched: "summands (VOp measure_tx Add measure_rx) =
      [stimulus 0, stimulus 1, acquisition 0 0, acquisition 1 1]"
    by (simp add: val_defs)
  have stored_rx: "stored_by measure_rx = [Some (0, 0), Some (1, 1)]"
    by (simp add: stored_by_def val_defs)
  have stored: "stored_by (VOp measure_tx Add measure_rx) = [Some (0, 0), Some (1, 1)]"
    by (simp add: stored_by_def val_defs)
  from pairs slots final_schedules rx sched stored_rx stored show ?thesis
    by (simp add: run_trace_eq)
qed

subsection \<open>No error handling, no validation\<close>

text \<open>
  Claim C6. No statement line of a code cell holds \<^verbatim>\<open>try\<close>, \<^verbatim>\<open>except\<close>,
  \<^verbatim>\<open>finally\<close>, \<^verbatim>\<open>raise\<close> or \<^verbatim>\<open>assert\<close>. None reads a measurement map
  (\<^verbatim>\<open>meas_map\<close>) or branches, so no code of the notebook checks the grouping of a
  measurement map; a markdown cell says where that is done: at assemble time.
\<close>

theorem no_error_handling:
  "absent error_keywords \<and> absent branch_keywords \<and> absent [''meas_map''] \<and>
   stated_in_markdown ''This is validated at assemble time.''"
  by (simp add: absent_def code_words_eq error_keywords_def branch_keywords_def
      stated_in_markdown_def notebook_def cell_defs)

subsection \<open>Every operation is imported\<close>

text \<open>
  Claim C7. Each of \<^verbatim>\<open>measure\<close>, \<^verbatim>\<open>measure_all\<close>, \<^verbatim>\<open>GaussianSquare\<close>,
  \<^verbatim>\<open>Acquire\<close>, \<^verbatim>\<open>MeasureChannel\<close>, \<^verbatim>\<open>AcquireChannel\<close>, \<^verbatim>\<open>MemorySlot\<close> and
  \<^verbatim>\<open>Schedule\<close> is bound by one import, from a module of the \<^verbatim>\<open>qiskit\<close> package.
  Whatever the code cells call or add is an object imported from that package or obtained
  from one, and no code cell defines a function or a class
  (no \<^verbatim>\<open>def\<close>, \<^verbatim>\<open>class\<close> or \<^verbatim>\<open>lambda\<close>).
\<close>

theorem operations_imported:
  "\<exists>tr. run_trace = Inr tr \<and>
     map (imported_from tr)
       [''measure'', ''measure_all'', ''GaussianSquare'', ''Acquire'', ''MeasureChannel'',
        ''AcquireChannel'', ''MemorySlot'', ''Schedule''] =
       [[''qiskit.scheduler''], [''qiskit.scheduler''], [''qiskit.pulse''], [''qiskit.pulse''],
        [''qiskit.pulse''], [''qiskit.pulse''], [''qiskit.pulse''], [''qiskit.pulse'']] \<and>
     list_all (\<lambda>f. from_qiskit (callee_root f)) (invoked tr) \<and>
     absent definition_keywords"
  by (simp add: run_trace_eq notebook_trace_def imported_from_def invoked_def val_defs
      is_qiskit_def absent_def code_words_eq definition_keywords_def)

subsection \<open>What the code cells consist of\<close>



subsection \<open>Further facts about the examples\<close>

text \<open>
  The one call of \<^verbatim>\<open>measure\<close> in a code cell has no positional argument and the keyword
  arguments \<^verbatim>\<open>qubits=[0]\<close>, \<^verbatim>\<open>backend=backend\<close> and \<^verbatim>\<open>qubit_mem_slots={0: 1}\<close>.
  What schedule the package builds from them is not decided by this repository.
\<close>

lemma measure_invocation:
  "\<exists>tr. run_trace = Inr tr \<and>
     calls_to (VExt ''qiskit.scheduler'' ''measure'') tr = [([], measure_params)]"
  by (simp add: run_trace_eq notebook_trace_def calls_to_def val_defs)

text \<open>
  The four instructions of the hand-built example are on four different channels. When the
  package starts each of them is, again, its own business.
\<close>

lemma hand_built_channels_distinct:
  "distinct [measure_channel 0, measure_channel 1, acquire_channel 0, acquire_channel 1]"
  by (simp add: measure_channel_def acquire_channel_def)

end
